theory Spec2Isabelle
  imports Complex_Main "HOL-Library.Sublist"
begin

section \<open>Python values and library functions used by the add-on\<close>

text \<open>
  The add-on (\<^verbatim>\<open>globalPlugins/typingEchoRate.py\<close>) keeps its per-synthesizer settings as
  JSON text inside the host configuration. The values \<^verbatim>\<open>json.loads\<close> can return are
  modelled by \<open>json\<close>; a finite Python float is the rational it denotes exactly.
  Exceptions are values of \<open>pyexn\<close>, and a computation that may raise has the type
  \<open>pyexn + 'a\<close> with \<open>Inl\<close> for the exception.
\<close>

datatype pyexn = ValueError | TypeError | OverflowError | JSONDecodeError

datatype pyfloat = Finite rat | NaN | Infinity bool

datatype json =
    JNull
  | JBool bool
  | JInt int
  | JFloat pyfloat
  | JString string
  | JArray "json list"
  | JObject "(string \<times> json) list"

text \<open>
  Functions of the Python standard library are not part of the repository; the ones whose
  behaviour is a large table or grammar are parameters of the model: the JSON decoder, the
  parser behind \<^verbatim>\<open>int(str)\<close>, and the Unicode general category of the code points
  beyond ASCII. A general category is always two letters.
\<close>

record pyenv =
  json_loads :: "string \<Rightarrow> pyexn + json"
  int_of_str :: "string \<Rightarrow> pyexn + int"
  ucd_category :: "nat \<Rightarrow> char \<times> char"

text \<open>\<^verbatim>\<open>int(v)\<close> on a decoded JSON value.\<close>

fun py_int :: "pyenv \<Rightarrow> json \<Rightarrow> pyexn + int" where
  "py_int py JNull = Inl TypeError"
| "py_int py (JBool b) = Inr (if b then 1 else 0)"
| "py_int py (JInt i) = Inr i"
| "py_int py (JFloat (Finite q)) = Inr (if 0 \<le> q then \<lfloor>q\<rfloor> else \<lceil>q\<rceil>)"
| "py_int py (JFloat NaN) = Inl ValueError"
| "py_int py (JFloat (Infinity s)) = Inl OverflowError"
| "py_int py (JString s) = int_of_str py s"
| "py_int py (JArray xs) = Inl TypeError"
| "py_int py (JObject kvs) = Inl TypeError"

text \<open>\<^verbatim>\<open>str.lower()\<close> on the characters of \<open>string\<close> (Latin-1), and \<^verbatim>\<open>a in b\<close> on strings.\<close>

definition lower_char :: "char \<Rightarrow> char" where
  "lower_char c =
     (let n = (of_char c :: nat)
      in if (65 \<le> n \<and> n \<le> 90) \<or> (192 \<le> n \<and> n \<le> 222 \<and> n \<noteq> 215)
         then char_of (n + 32) else c)"

definition lower :: "string \<Rightarrow> string" where
  "lower s = map lower_char s"

fun py_in :: "string \<Rightarrow> string \<Rightarrow> bool" where
  "py_in needle [] = (needle = [])"
| "py_in needle (c # cs) = (prefix needle (c # cs) \<or> py_in needle cs)"

section \<open>Configuration\<close>

text \<open>
  The add-on's configuration section. A field is \<open>None\<close> when the key is absent, which is
  when \<^verbatim>\<open>conf.get(key, default)\<close> returns its default.
\<close>

record conf =
  enabled :: "bool option"
  enabledSpelling :: "bool option"
  typingRatesJson :: "string option"
  typingRate :: "int option"
  oneCoreBoostJson :: "string option"
  oneCoreBoost :: "int option"
  spellingRatesJson :: "string option"
  spellingRate :: "int option"
  oneCoreSpellBoostJson :: "string option"
  oneCoreSpellBoost :: "int option"
  applyToWords :: "bool option"

definition conf_get :: "'a option \<Rightarrow> 'a \<Rightarrow> 'a" where
  "conf_get field dflt = (case field of Some v \<Rightarrow> v | None \<Rightarrow> dflt)"

definition isOneCoreSynthName :: "string \<Rightarrow> bool" where
  "isOneCoreSynthName name = (let n = lower name in py_in ''onecore'' n \<or> n = ''onecore'')"

subsection \<open>Loading the per-synthesizer maps\<close>

text \<open>
  The loop of the four loaders: an entry whose value \<^verbatim>\<open>int\<close> rejects is skipped
  (\<^verbatim>\<open>except Exception: continue\<close>), a later entry overwrites an earlier one with the same key.
\<close>

fun load_items :: "pyenv \<Rightarrow> (string \<times> json) list \<Rightarrow> (string \<rightharpoonup> int) \<Rightarrow> (string \<rightharpoonup> int)" where
  "load_items py [] out = out"
| "load_items py ((k, v) # kvs) out =
     (case py_int py v of
        Inl e \<Rightarrow> load_items py kvs out
      | Inr i \<Rightarrow> load_items py kvs (out(k \<mapsto> i)))"

text \<open>
  The body of the \<^verbatim>\<open>try\<close> block: it raises what the decoder raises, returns the map built
  from an object (\<open>Some\<close>), and falls through for any other JSON value (\<open>None\<close>).
\<close>

definition load_try :: "pyenv \<Rightarrow> string \<Rightarrow> pyexn + (string \<rightharpoonup> int) option" where
  "load_try py raw =
     (case json_loads py raw of
        Inl e \<Rightarrow> Inl e
      | Inr data \<Rightarrow>
          (case data of
             JObject kvs \<Rightarrow> Inr (Some (load_items py kvs Map.empty))
           | _ \<Rightarrow> Inr None))"

text \<open>
  The four loaders have the same text and differ in the key they read:
  \<^verbatim>\<open>raw = conf.get(key, "") or ""\<close>, the \<^verbatim>\<open>try\<close> block, \<^verbatim>\<open>except Exception: pass\<close>,
  \<^verbatim>\<open>return {}\<close>.
\<close>

definition load_json_map :: "pyenv \<Rightarrow> string option \<Rightarrow> pyexn + (string \<rightharpoonup> int)" where
  "load_json_map py field =
     (let raw = conf_get field ''''
      in case load_try py raw of
           Inl e \<Rightarrow> Inr Map.empty
         | Inr (Some out) \<Rightarrow> Inr out
         | Inr None \<Rightarrow> Inr Map.empty)"

definition loadBoostMap :: "pyenv \<Rightarrow> conf \<Rightarrow> pyexn + (string \<rightharpoonup> int)" where
  "loadBoostMap py c = load_json_map py (oneCoreBoostJson c)"

definition loadSpellBoostMap :: "pyenv \<Rightarrow> conf \<Rightarrow> pyexn + (string \<rightharpoonup> int)" where
  "loadSpellBoostMap py c = load_json_map py (oneCoreSpellBoostJson c)"

definition loadTypingRatesMap :: "pyenv \<Rightarrow> conf \<Rightarrow> pyexn + (string \<rightharpoonup> int)" where
  "loadTypingRatesMap py c = load_json_map py (typingRatesJson c)"

definition loadSpellingRatesMap :: "pyenv \<Rightarrow> conf \<Rightarrow> pyexn + (string \<rightharpoonup> int)" where
  "loadSpellingRatesMap py c = load_json_map py (spellingRatesJson c)"

subsection \<open>Per-synthesizer lookups with their scalar fallbacks\<close>

text \<open>
  \<^verbatim>\<open>if synthName and synthName in m: return int(m[synthName])\<close>, else the scalar
  fallback key with its default. The values of the map and of the fallback keys are
  integers already, so the \<^verbatim>\<open>int\<close> calls cannot raise; an exception of the loader would
  propagate to the caller.
\<close>

definition getBoostForSynth :: "pyenv \<Rightarrow> conf \<Rightarrow> string \<Rightarrow> pyexn + int" where
  "getBoostForSynth py c synthName =
     (case loadBoostMap py c of
        Inl e \<Rightarrow> Inl e
      | Inr m \<Rightarrow>
          (if synthName \<noteq> [] \<and> m synthName \<noteq> None then Inr (the (m synthName))
           else Inr (conf_get (oneCoreBoost c) 0)))"

definition getSpellBoostForSynth :: "pyenv \<Rightarrow> conf \<Rightarrow> string \<Rightarrow> pyexn + int" where
  "getSpellBoostForSynth py c synthName =
     (case loadSpellBoostMap py c of
        Inl e \<Rightarrow> Inl e
      | Inr m \<Rightarrow>
          (if synthName \<noteq> [] \<and> m synthName \<noteq> None then Inr (the (m synthName))
           else Inr (conf_get (oneCoreSpellBoost c) 0)))"

definition getTypingRateForSynth :: "pyenv \<Rightarrow> conf \<Rightarrow> string \<Rightarrow> pyexn + int" where
  "getTypingRateForSynth py c synthName =
     (case loadTypingRatesMap py c of
        Inl e \<Rightarrow> Inl e
      | Inr m \<Rightarrow>
          (if synthName \<noteq> [] \<and> m synthName \<noteq> None then Inr (the (m synthName))
           else Inr (conf_get (typingRate c) (- 1))))"

definition getSpellingRateForSynth :: "pyenv \<Rightarrow> conf \<Rightarrow> string \<Rightarrow> pyexn + int" where
  "getSpellingRateForSynth py c synthName =
     (case loadSpellingRatesMap py c of
        Inl e \<Rightarrow> Inl e
      | Inr m \<Rightarrow>
          (if synthName \<noteq> [] \<and> m synthName \<noteq> None then Inr (the (m synthName))
           else Inr (conf_get (spellingRate c) (- 1))))"

section \<open>Rate resolution\<close>

text \<open>
  \<^verbatim>\<open>_computeTypingRateOffset\<close> and \<^verbatim>\<open>_computeSpellingRateOffset\<close>. The active synthesizer's
  name and its default rate are read from the host (\<^verbatim>\<open>_getActiveSynthName\<close>,
  \<^verbatim>\<open>_getDefaultSpeechRate\<close>); here they are arguments.
\<close>

definition computeTypingRateOffset :: "pyenv \<Rightarrow> conf \<Rightarrow> string \<Rightarrow> int \<Rightarrow> pyexn + int" where
  "computeTypingRateOffset py c synthName defaultRate =
     (if \<not> conf_get (enabledSpelling c) (conf_get (enabled c) True) then Inr 0
      else
        (case getTypingRateForSynth py c synthName of
           Inl e \<Rightarrow> Inl e
         | Inr typingRate0 \<Rightarrow>
             (let typingRate1 = (if typingRate0 < 0 then defaultRate else typingRate0);
                  typingRate = (if typingRate1 < 0 then 0
                                else if typingRate1 > 100 then 100 else typingRate1);
                  offset = typingRate - defaultRate
              in if isOneCoreSynthName synthName
                 then (case getBoostForSynth py c synthName of
                         Inl e \<Rightarrow> Inl e
                       | Inr boost0 \<Rightarrow>
                           (let boost = (if boost0 < 0 then 0
                                         else if boost0 > 100 then 100 else boost0)
                            in Inr (offset + boost)))
                 else Inr offset)))"

definition computeSpellingRateOffset :: "pyenv \<Rightarrow> conf \<Rightarrow> string \<Rightarrow> int \<Rightarrow> pyexn + int" where
  "computeSpellingRateOffset py c synthName defaultRate =
     (if \<not> conf_get (enabled c) True then Inr 0
      else
        (case getSpellingRateForSynth py c synthName of
           Inl e \<Rightarrow> Inl e
         | Inr spellingRate0 \<Rightarrow>
             (let spellingRate1 = (if spellingRate0 < 0 then defaultRate else spellingRate0);
                  spellingRate = (if spellingRate1 < 0 then 0
                                  else if spellingRate1 > 100 then 100 else spellingRate1);
                  offset = spellingRate - defaultRate
              in if isOneCoreSynthName synthName
                 then (case getSpellBoostForSynth py c synthName of
                         Inl e \<Rightarrow> Inl e
                       | Inr boost0 \<Rightarrow>
                           (let boost = (if boost0 < 0 then 0
                                         else if boost0 > 100 then 100 else boost0)
                            in Inr (offset + boost)))
                 else Inr offset)))"

section \<open>Speech dispatch\<close>

text \<open>
  Typed characters range over all of Unicode, so a typed character is its code point and
  spoken text is a list of code points. A speech sequence holds text, rate commands
  (\<^verbatim>\<open>RateCommand(offset=n)\<close> is \<open>RateCommand (Some n)\<close>, \<^verbatim>\<open>RateCommand()\<close> is
  \<open>RateCommand None\<close>) and the commands the host's spelling builder adds.
\<close>

type_synonym ustr = "nat list"

datatype cmd = Text ustr | RateCommand "int option" | HostCommand nat

datatype TypingEcho = OFF | EDIT_CONTROLS | ALWAYS

text \<open>
  What one call of a handler reads from the host: the active synthesizer and its default
  rate, the add-on's configuration section, \<^verbatim>\<open>api.isTypingProtected()\<close>,
  \<^verbatim>\<open>_isFocusEditable()\<close>, the two keyboard echo settings, whether IO logging is on,
  \<^verbatim>\<open>getSpellingSpeech\<close>, and whether an original handler was saved when patching. These
  host calls are taken not to raise.
\<close>

record host =
  activeSynthName :: string
  defaultSpeechRate :: int
  addonConf :: conf
  isTypingProtected :: bool
  isFocusEditable :: bool
  speakTypedWords :: TypingEcho
  speakTypedCharacters :: TypingEcho
  logIOEnabled :: bool
  getSpellingSpeech :: "ustr \<Rightarrow> cmd list"
  origInstalled :: bool

text \<open>
  The result of a speak function is the sequence it hands to \<^verbatim>\<open>_speech.speak\<close>, or the
  exception that escapes it.
\<close>

definition speakWithTypingRate :: "pyenv \<Rightarrow> host \<Rightarrow> cmd list \<Rightarrow> pyexn + cmd list" where
  "speakWithTypingRate py h seq =
     (case computeTypingRateOffset py (addonConf h) (activeSynthName h) (defaultSpeechRate h) of
        Inl e \<Rightarrow> Inl e
      | Inr offset \<Rightarrow>
          (if offset = 0 then Inr seq
           else Inr ([RateCommand (Some offset)] @ seq @ [RateCommand None])))"

definition speakSpellingWithTypingRate :: "pyenv \<Rightarrow> host \<Rightarrow> ustr \<Rightarrow> pyexn + cmd list" where
  "speakSpellingWithTypingRate py h text = speakWithTypingRate py h (getSpellingSpeech h text)"

definition speakTextWithTypingRate :: "pyenv \<Rightarrow> host \<Rightarrow> ustr \<Rightarrow> pyexn + cmd list" where
  "speakTextWithTypingRate py h text = speakWithTypingRate py h [Text text]"

definition speakSpellingWithSpellingRate :: "pyenv \<Rightarrow> host \<Rightarrow> ustr \<Rightarrow> pyexn + cmd list" where
  "speakSpellingWithSpellingRate py h text =
     (case computeSpellingRateOffset py (addonConf h) (activeSynthName h) (defaultSpeechRate h) of
        Inl e \<Rightarrow> Inl e
      | Inr offset \<Rightarrow>
          (let seq = getSpellingSpeech h text
           in if offset = 0 then Inr seq
              else Inr ([RateCommand (Some offset)] @ seq @ [RateCommand None])))"

section \<open>Typed characters\<close>

text \<open>
  \<^verbatim>\<open>unicodedata.category\<close> on ASCII, from the Unicode character database; beyond ASCII the
  category comes from the parameter.
\<close>

definition ascii_category :: "nat \<Rightarrow> char \<times> char" where
  "ascii_category c =
     (if c < 32 \<or> c = 127 then (CHR ''C'', CHR ''c'')
      else if c = 32 then (CHR ''Z'', CHR ''s'')
      else if 48 \<le> c \<and> c \<le> 57 then (CHR ''N'', CHR ''d'')
      else if 65 \<le> c \<and> c \<le> 90 then (CHR ''L'', CHR ''u'')
      else if 97 \<le> c \<and> c \<le> 122 then (CHR ''L'', CHR ''l'')
      else if c = 36 then (CHR ''S'', CHR ''c'')
      else if c \<in> {43, 60, 61, 62, 124, 126} then (CHR ''S'', CHR ''m'')
      else if c \<in> {94, 96} then (CHR ''S'', CHR ''k'')
      else if c \<in> {40, 91, 123} then (CHR ''P'', CHR ''s'')
      else if c \<in> {41, 93, 125} then (CHR ''P'', CHR ''e'')
      else if c = 45 then (CHR ''P'', CHR ''d'')
      else if c = 95 then (CHR ''P'', CHR ''c'')
      else (CHR ''P'', CHR ''o''))"

definition category :: "pyenv \<Rightarrow> nat \<Rightarrow> char \<times> char" where
  "category py c = (if c < 128 then ascii_category c else ucd_category py c)"

definition PROTECTED_CHAR :: nat where
  "PROTECTED_CHAR = 42"

definition FIRST_NONCONTROL_CHAR :: nat where
  "FIRST_NONCONTROL_CHAR = 32"

text \<open>
  What the handler does that can be observed outside it, in the order it happens:
  \<^item> \<open>WordRequest w seq\<close>: \<^verbatim>\<open>_speakTextWithTypingRate(w)\<close>, which handed \<open>seq\<close> to the host;
  \<^item> \<open>CharRequest t seq\<close>: \<^verbatim>\<open>_speakSpellingWithTypingRate(t)\<close>, which handed \<open>seq\<close> to the host;
  \<^item> \<open>HostSpeakText w\<close>: the host's own \<^verbatim>\<open>_speech.speakText(w)\<close>, with no rate injected;
  \<^item> \<open>LogIO w\<close>: the line \<^verbatim>\<open>typed word: w\<close> in the IO log;
  \<^item> \<open>LogError\<close> and \<open>CallOrig ch\<close>: the \<^verbatim>\<open>except\<close> branch, which logs the error and calls
    the saved original handler with the typed character.
\<close>

datatype event =
    WordRequest ustr "cmd list"
  | CharRequest ustr "cmd list"
  | HostSpeakText ustr
  | LogIO ustr
  | LogError
  | CallOrig nat

text \<open>
  The branch of \<^verbatim>\<open>_patched_speakTypedCharacters\<close> taken at a boundary with a non-empty
  buffer, once the buffer is snapshot into \<open>typedWord\<close> and cleared. The second component
  is the exception that escaped, if any.
\<close>

definition typed_word_echo :: "pyenv \<Rightarrow> host \<Rightarrow> ustr \<Rightarrow> event list \<times> pyexn option" where
  "typed_word_echo py h typedWord =
     (let logged = (if logIOEnabled h then [LogIO typedWord] else [])
      in if \<not> isTypingProtected h \<and> conf_get (applyToWords (addonConf h)) False
         then
           (if speakTypedWords h \<noteq> OFF
            then
              (if speakTypedWords h = ALWAYS
                  \<or> (speakTypedWords h = EDIT_CONTROLS \<and> isFocusEditable h)
               then (case speakTextWithTypingRate py h typedWord of
                       Inl e \<Rightarrow> (logged, Some e)
                     | Inr seq \<Rightarrow> (logged @ [WordRequest typedWord seq], None))
               else (logged, None))
            else (logged, None))
         else
           (if speakTypedWords h \<noteq> OFF \<and> \<not> isTypingProtected h
            then
              (if speakTypedWords h = ALWAYS
                  \<or> (speakTypedWords h = EDIT_CONTROLS \<and> isFocusEditable h)
               then (logged @ [HostSpeakText typedWord], None)
               else (logged, None))
            else (logged, None)))"

text \<open>The character echo at the end of the handler.\<close>

definition typed_char_echo :: "pyenv \<Rightarrow> host \<Rightarrow> nat \<Rightarrow> nat \<Rightarrow> event list \<times> pyexn option" where
  "typed_char_echo py h ch realChar =
     (if speakTypedCharacters h \<noteq> OFF \<and> FIRST_NONCONTROL_CHAR \<le> ch
      then
        (if speakTypedCharacters h = ALWAYS
            \<or> (speakTypedCharacters h = EDIT_CONTROLS \<and> isFocusEditable h)
         then (case speakSpellingWithTypingRate py h [realChar] of
                 Inl e \<Rightarrow> ([], Some e)
               | Inr seq \<Rightarrow> ([CharRequest [realChar] seq], None))
         else ([], None))
      else ([], None))"

text \<open>
  The \<^verbatim>\<open>try\<close> block: the new buffer \<^verbatim>\<open>_curWordChars\<close>, the events so far and the exception
  that ended the block, if any. \<^verbatim>\<open>del _curWordChars[-1:]\<close> is \<open>butlast\<close>.
\<close>

definition speakTypedCharacters_try ::
  "pyenv \<Rightarrow> host \<Rightarrow> ustr \<Rightarrow> nat \<Rightarrow> ustr \<times> event list \<times> pyexn option" where
  "speakTypedCharacters_try py h curWordChars ch =
     (let typingIsProtected = isTypingProtected h;
          realChar = (if typingIsProtected then PROTECTED_CHAR else ch)
      in if fst (category py ch) \<in> set ''LMN''
         then (let (evs, x) = typed_char_echo py h ch realChar
               in (curWordChars @ [realChar], evs, x))
         else if ch = 8
         then (let (evs, x) = typed_char_echo py h ch realChar
               in (butlast curWordChars, evs, x))
         else if ch = 127
         then (curWordChars, [], None)
         else if length curWordChars > 0
         then (case typed_word_echo py h curWordChars of
                 (evs, Some e) \<Rightarrow> ([], evs, Some e)
               | (evs, None) \<Rightarrow>
                   (let (evs', x) = typed_char_echo py h ch realChar
                    in ([], evs @ evs', x)))
         else (let (evs, x) = typed_char_echo py h ch realChar
               in (curWordChars, evs, x)))"

definition patched_speakTypedCharacters ::
  "pyenv \<Rightarrow> host \<Rightarrow> ustr \<Rightarrow> nat \<Rightarrow> ustr \<times> event list" where
  "patched_speakTypedCharacters py h curWordChars ch =
     (case speakTypedCharacters_try py h curWordChars ch of
        (buf, evs, None) \<Rightarrow> (buf, evs)
      | (buf, evs, Some e) \<Rightarrow>
          (buf, evs @ [LogError] @ (if origInstalled h then [CallOrig ch] else [])))"

text \<open>
  The host calls the handler once per keystroke; each keystroke comes with what the host
  answers during that call.
\<close>

fun run :: "pyenv \<Rightarrow> ustr \<Rightarrow> (host \<times> nat) list \<Rightarrow> ustr \<times> event list" where
  "run py buf [] = (buf, [])"
| "run py buf ((h, ch) # ks) =
     (let (buf', evs) = patched_speakTypedCharacters py h buf ch;
          (buf'', evs') = run py buf' ks
      in (buf'', evs @ evs'))"

section \<open>Notions used to state the properties\<close>

definition is_word_request :: "event \<Rightarrow> bool" where
  "is_word_request e = (case e of WordRequest w seq \<Rightarrow> True | _ \<Rightarrow> False)"

definition is_char_request :: "event \<Rightarrow> bool" where
  "is_char_request e = (case e of CharRequest t seq \<Rightarrow> True | _ \<Rightarrow> False)"

definition request_text :: "event \<Rightarrow> ustr" where
  "request_text e =
     (case e of WordRequest w seq \<Rightarrow> w | CharRequest t seq \<Rightarrow> t | HostSpeakText w \<Rightarrow> w
      | LogIO w \<Rightarrow> w | LogError \<Rightarrow> [] | CallOrig c \<Rightarrow> [c])"

definition char_echo_permitted :: "host \<Rightarrow> bool" where
  "char_echo_permitted h =
     (speakTypedCharacters h = ALWAYS
      \<or> (speakTypedCharacters h = EDIT_CONTROLS \<and> isFocusEditable h))"

text \<open>
  The four categories the handler's \<^verbatim>\<open>if\<close>/\<^verbatim>\<open>elif\<close> chain sorts a typed character
  into: letter, mark or number; backspace; delete; anything else.
\<close>

datatype key_class = WordConstituent | DeleteLast | DiscardSilently | Boundary

definition classify :: "pyenv \<Rightarrow> nat \<Rightarrow> key_class" where
  "classify py ch =
     (if fst (category py ch) \<in> set ''LMN'' then WordConstituent
      else if ch = 8 then DeleteLast
      else if ch = 127 then DiscardSilently
      else Boundary)"

text \<open>
  An event that shows nothing of what was typed under protection: a character request for
  the mask, or a log line made of the mask and of what the buffer \<open>buf\<close> held before.
\<close>

definition masked_event :: "ustr \<Rightarrow> event \<Rightarrow> bool" where
  "masked_event buf e =
     (case e of
        CharRequest t seq \<Rightarrow> t = [PROTECTED_CHAR]
      | LogIO w \<Rightarrow> set w \<subseteq> set buf \<union> {PROTECTED_CHAR}
      | _ \<Rightarrow> False)"

text \<open>
  A persisted text that is not a mapping: the decoder rejects it, or it decodes to a JSON
  value other than an object.
\<close>

definition malformed :: "pyenv \<Rightarrow> string \<Rightarrow> bool" where
  "malformed py raw =
     (case json_loads py raw of
        Inl e \<Rightarrow> True
      | Inr data \<Rightarrow> (case data of JObject kvs \<Rightarrow> False | _ \<Rightarrow> True))"

section \<open>Concrete inputs\<close>

definition doc_rate72 :: string where
  "doc_rate72 = ''{\"espeak\":72}''"

definition doc_neg5 :: string where
  "doc_neg5 = ''{\"espeak\":-5}''"

definition doc_boost130 :: string where
  "doc_boost130 = ''{\"oneCore\":130}''"

definition doc_mixed :: string where
  "doc_mixed = ''{\"a\":1,\"b\":null}''"

text \<open>
  A decoder that knows five documents and rejects every other text, the empty one
  included, as \<^verbatim>\<open>json.loads\<close> does; an \<^verbatim>\<open>int(str)\<close> that knows one numeral; and no
  letters beyond ASCII.
\<close>

definition py0 :: pyenv where
  "py0 = \<lparr> json_loads = (\<lambda>s.
             if s = doc_rate72 then Inr (JObject [(''espeak'', JInt 72)])
             else if s = doc_neg5 then Inr (JObject [(''espeak'', JInt (- 5))])
             else if s = doc_boost130 then Inr (JObject [(''oneCore'', JInt 130)])
             else if s = doc_mixed then Inr (JObject [(''a'', JInt 1), (''b'', JNull)])
             else if s = ''[1,2]'' then Inr (JArray [JInt 1, JInt 2])
             else Inl JSONDecodeError),
           int_of_str = (\<lambda>s. if s = ''12'' then Inr 12 else Inl ValueError),
           ucd_category = (\<lambda>c. (CHR ''C'', CHR ''n'')) \<rparr>"

text \<open>The configuration as the registered spec fills it in, and variations of it.\<close>

definition conf0 :: conf where
  "conf0 = \<lparr> enabled = Some True, enabledSpelling = Some True,
             typingRatesJson = Some '''', typingRate = Some (- 1),
             oneCoreBoostJson = Some '''', oneCoreBoost = Some 0,
             spellingRatesJson = Some '''', spellingRate = Some (- 1),
             oneCoreSpellBoostJson = Some '''', oneCoreSpellBoost = Some 0,
             applyToWords = Some False \<rparr>"

text \<open>
  The settings panel stores its checkbox "Enable separate typing rate" under \<^verbatim>\<open>enabled\<close>
  and its checkbox "Enable separate spelling rate" under \<^verbatim>\<open>enabledSpelling\<close>. Here one
  of the two is unchecked, with the rate 72 stored for eSpeak.
\<close>

definition conf_typing_off :: conf where
  "conf_typing_off = conf0\<lparr>enabled := Some False, enabledSpelling := Some True,
                            typingRatesJson := Some doc_rate72,
                            spellingRatesJson := Some doc_rate72\<rparr>"

definition conf_spelling_off :: conf where
  "conf_spelling_off = conf0\<lparr>enabled := Some True, enabledSpelling := Some False,
                              typingRatesJson := Some doc_rate72,
                              spellingRatesJson := Some doc_rate72\<rparr>"

definition conf_rate72 :: conf where
  "conf_rate72 = conf0\<lparr>typingRatesJson := Some doc_rate72,
                        spellingRatesJson := Some doc_rate72\<rparr>"

definition conf_neg :: conf where
  "conf_neg = conf0\<lparr>typingRatesJson := Some doc_neg5, spellingRatesJson := Some doc_neg5\<rparr>"

definition conf_boost :: conf where
  "conf_boost = conf0\<lparr>oneCoreBoostJson := Some doc_boost130,
                       oneCoreSpellBoostJson := Some doc_boost130\<rparr>"

definition conf_bad :: conf where
  "conf_bad = conf0\<lparr>typingRatesJson := Some '''', spellingRatesJson := Some ''{'',
                     oneCoreBoostJson := Some ''[1,2]'', oneCoreSpellBoostJson := None\<rparr>"

definition host0 :: host where
  "host0 = \<lparr> activeSynthName = ''espeak'', defaultSpeechRate = 50, addonConf = conf_rate72,
             isTypingProtected = False, isFocusEditable = True,
             speakTypedWords = ALWAYS, speakTypedCharacters = ALWAYS,
             logIOEnabled = False, getSpellingSpeech = (\<lambda>t. [Text t, HostCommand 0]),
             origInstalled = True \<rparr>"

definition host_prot :: host where
  "host_prot = host0\<lparr>isTypingProtected := True, logIOEnabled := True\<rparr>"

text \<open>The keystrokes \<open>c a t\<close>; \<open>s e c\<close> and a space; \<open>a b x\<close> and a full stop.\<close>

definition cat_keys :: "(host \<times> nat) list" where
  "cat_keys = [(host0, 99), (host0, 97), (host0, 116)]"

definition sec_keys :: "(host \<times> nat) list" where
  "sec_keys = [(host_prot, 115), (host_prot, 101), (host_prot, 99), (host_prot, 32)]"

definition abx_keys :: "(host \<times> nat) list" where
  "abx_keys = [(host_prot, 97), (host_prot, 98), (host_prot, 120), (host_prot, 46)]"

text \<open>Under protection: \<open>s\<close> and a tab; \<open>s\<close> and a space.\<close>

definition s_tab_keys :: "(host \<times> nat) list" where
  "s_tab_keys = [(host_prot, 115), (host_prot, 9)]"

definition s_space_keys :: "(host \<times> nat) list" where
  "s_space_keys = [(host_prot, 115), (host_prot, 32)]"

section \<open>Facts about the concrete inputs\<close>

lemma py0_loads:
  "json_loads py0 [] = Inl JSONDecodeError"
  "json_loads py0 doc_rate72 = Inr (JObject [(''espeak'', JInt 72)])"
  "json_loads py0 doc_neg5 = Inr (JObject [(''espeak'', JInt (- 5))])"
  "json_loads py0 doc_boost130 = Inr (JObject [(''oneCore'', JInt 130)])"
  "json_loads py0 doc_mixed = Inr (JObject [(''a'', JInt 1), (''b'', JNull)])"
  by (simp_all add: py0_def doc_rate72_def doc_neg5_def doc_boost130_def doc_mixed_def)

lemma py0_malformed: "malformed py0 ''''" "malformed py0 ''{''" "malformed py0 ''[1,2]''"
  by (simp_all add: malformed_def py0_def doc_rate72_def doc_neg5_def doc_boost130_def
      doc_mixed_def)

lemma espeak_not_onecore: "\<not> isOneCoreSynthName ''espeak''"
  by (simp add: isOneCoreSynthName_def lower_def lower_char_def Let_def)

lemma oneCore_is_onecore: "isOneCoreSynthName ''oneCore''"
  by code_simp

lemma conf0_enabled:
  "conf_get (enabledSpelling conf0) (conf_get (enabled conf0) True)"
  "conf_get (enabled conf0) True"
  by (simp_all add: conf0_def conf_get_def)

lemma conf_rate72_enabled:
  "conf_get (enabledSpelling conf_rate72) (conf_get (enabled conf_rate72) True)"
  "conf_get (enabled conf_rate72) True"
  by (simp_all add: conf_rate72_def conf0_def conf_get_def)

lemma conf_neg_enabled:
  "conf_get (enabledSpelling conf_neg) (conf_get (enabled conf_neg) True)"
  "conf_get (enabled conf_neg) True"
  by (simp_all add: conf_neg_def conf0_def conf_get_def)

lemma conf_boost_enabled:
  "conf_get (enabledSpelling conf_boost) (conf_get (enabled conf_boost) True)"
  "conf_get (enabled conf_boost) True"
  by (simp_all add: conf_boost_def conf0_def conf_get_def)

lemma conf0_rates:
  "getTypingRateForSynth py0 conf0 s = Inr (- 1)"
  "getSpellingRateForSynth py0 conf0 s = Inr (- 1)"
  by (simp_all add: getTypingRateForSynth_def loadTypingRatesMap_def getSpellingRateForSynth_def
      loadSpellingRatesMap_def load_json_map_def load_try_def conf0_def conf_get_def py0_loads)

lemma rate72_typing: "getTypingRateForSynth py0 conf_rate72 ''espeak'' = Inr 72"
  by (simp add: getTypingRateForSynth_def loadTypingRatesMap_def load_json_map_def load_try_def
      conf_rate72_def conf0_def conf_get_def py0_loads)

lemma rate72_spelling: "getSpellingRateForSynth py0 conf_rate72 ''espeak'' = Inr 72"
  by (simp add: getSpellingRateForSynth_def loadSpellingRatesMap_def load_json_map_def
      load_try_def conf_rate72_def conf0_def conf_get_def py0_loads)

lemma neg_typing_map: "loadTypingRatesMap py0 conf_neg = Inr [''espeak'' \<mapsto> - 5]"
  by (simp add: loadTypingRatesMap_def load_json_map_def load_try_def
      conf_neg_def conf0_def conf_get_def py0_loads)

lemma neg_spelling_map: "loadSpellingRatesMap py0 conf_neg = Inr [''espeak'' \<mapsto> - 5]"
  by (simp add: loadSpellingRatesMap_def load_json_map_def load_try_def
      conf_neg_def conf0_def conf_get_def py0_loads)

lemma neg_typing: "getTypingRateForSynth py0 conf_neg ''espeak'' = Inr (- 5)"
  by (simp add: getTypingRateForSynth_def neg_typing_map)

lemma neg_boost: "getBoostForSynth py0 conf_neg ''espeak'' = Inr 0"
  by (simp add: getBoostForSynth_def loadBoostMap_def load_json_map_def load_try_def
      conf_neg_def conf0_def conf_get_def py0_loads)

lemma neg_spell_boost: "getSpellBoostForSynth py0 conf_neg ''espeak'' = Inr 0"
  by (simp add: getSpellBoostForSynth_def loadSpellBoostMap_def load_json_map_def load_try_def
      conf_neg_def conf0_def conf_get_def py0_loads)

lemma boost130: "getBoostForSynth py0 conf_boost ''oneCore'' = Inr 130"
  by (simp add: getBoostForSynth_def loadBoostMap_def load_json_map_def load_try_def
      conf_boost_def conf0_def conf_get_def py0_loads)

lemma spell_boost130: "getSpellBoostForSynth py0 conf_boost ''oneCore'' = Inr 130"
  by (simp add: getSpellBoostForSynth_def loadSpellBoostMap_def load_json_map_def load_try_def
      conf_boost_def conf0_def conf_get_def py0_loads)

lemma boost_conf_typing: "getTypingRateForSynth py0 conf_boost ''oneCore'' = Inr (- 1)"
  by (simp add: getTypingRateForSynth_def loadTypingRatesMap_def load_json_map_def load_try_def
      conf_boost_def conf0_def conf_get_def py0_loads)

lemma boost_conf_spelling: "getSpellingRateForSynth py0 conf_boost ''oneCore'' = Inr (- 1)"
  by (simp add: getSpellingRateForSynth_def loadSpellingRatesMap_def load_json_map_def
      load_try_def conf_boost_def conf0_def conf_get_def py0_loads)

lemma host0_fields:
  "addonConf host0 = conf_rate72" "activeSynthName host0 = ''espeak''"
  "defaultSpeechRate host0 = 50" "getSpellingSpeech host0 = (\<lambda>t. [Text t, HostCommand 0])"
  by (simp_all add: host0_def)

lemma host0_flags:
  "\<not> isTypingProtected host0" "\<not> conf_get (applyToWords (addonConf host0)) False"
  "speakTypedCharacters host0 = ALWAYS"
  by (simp_all add: host0_def conf_rate72_def conf0_def conf_get_def)

lemma host_prot_protected: "isTypingProtected host_prot"
  by (simp add: host_prot_def)

lemma letters_cat:
  "fst (category py0 99) \<in> set ''LMN''" "fst (category py0 97) \<in> set ''LMN''"
  "fst (category py0 116) \<in> set ''LMN''" "fst (category py0 32) \<notin> set ''LMN''"
  by (simp_all add: category_def ascii_category_def)

lemma classes_agree:
  "classify py0 97 = classify py0 115" "classify py0 98 = classify py0 101"
  "classify py0 120 = classify py0 99" "classify py0 46 = classify py0 32"
  "(FIRST_NONCONTROL_CHAR \<le> 97) = (FIRST_NONCONTROL_CHAR \<le> 115)"
  "(FIRST_NONCONTROL_CHAR \<le> 98) = (FIRST_NONCONTROL_CHAR \<le> 101)"
  "(FIRST_NONCONTROL_CHAR \<le> 120) = (FIRST_NONCONTROL_CHAR \<le> 99)"
  "(FIRST_NONCONTROL_CHAR \<le> 46) = (FIRST_NONCONTROL_CHAR \<le> 32)"
  by (simp_all add: classify_def category_def ascii_category_def FIRST_NONCONTROL_CHAR_def)

lemma conf_off_rates:
  "getTypingRateForSynth py0 conf_typing_off ''espeak'' = Inr 72"
  "getSpellingRateForSynth py0 conf_spelling_off ''espeak'' = Inr 72"
  by (simp_all add: getTypingRateForSynth_def loadTypingRatesMap_def getSpellingRateForSynth_def
      loadSpellingRatesMap_def load_json_map_def load_try_def conf_typing_off_def
      conf_spelling_off_def conf0_def conf_get_def py0_loads)

section \<open>The loaders and the lookups never raise\<close>

lemma load_json_map_total: "\<exists>m. load_json_map py field = Inr m"
  by (simp add: load_json_map_def split: sum.split option.split)

lemma load_json_map_malformed:
  "malformed py (conf_get field '''') \<Longrightarrow> load_json_map py field = Inr Map.empty"
  by (auto simp: malformed_def load_json_map_def load_try_def split: sum.splits json.splits)

lemma getTypingRateForSynth_total: "\<exists>r. getTypingRateForSynth py c s = Inr r"
  using load_json_map_total [of py "typingRatesJson c"]
  by (auto simp: getTypingRateForSynth_def loadTypingRatesMap_def)

lemma getSpellingRateForSynth_total: "\<exists>r. getSpellingRateForSynth py c s = Inr r"
  using load_json_map_total [of py "spellingRatesJson c"]
  by (auto simp: getSpellingRateForSynth_def loadSpellingRatesMap_def)

lemma getBoostForSynth_total: "\<exists>b. getBoostForSynth py c s = Inr b"
  using load_json_map_total [of py "oneCoreBoostJson c"]
  by (auto simp: getBoostForSynth_def loadBoostMap_def)

lemma getSpellBoostForSynth_total: "\<exists>b. getSpellBoostForSynth py c s = Inr b"
  using load_json_map_total [of py "oneCoreSpellBoostJson c"]
  by (auto simp: getSpellBoostForSynth_def loadSpellBoostMap_def)

lemma computeTypingRateOffset_total: "\<exists>x. computeTypingRateOffset py c s d = Inr x"
  using getTypingRateForSynth_total [of py c s] getBoostForSynth_total [of py c s]
  by (auto simp: computeTypingRateOffset_def Let_def)

lemma computeSpellingRateOffset_total: "\<exists>x. computeSpellingRateOffset py c s d = Inr x"
  using getSpellingRateForSynth_total [of py c s] getSpellBoostForSynth_total [of py c s]
  by (auto simp: computeSpellingRateOffset_def Let_def)

text \<open>
  An object with an entry that \<^verbatim>\<open>int\<close> rejects is a mapping all the same: the loader drops
  that entry and keeps the others.
\<close>

lemma load_keeps_convertible_entries:
  "loadTypingRatesMap py0 (conf0\<lparr>typingRatesJson := Some doc_mixed\<rparr>) = Inr [''a'' \<mapsto> 1]"
  by (simp add: loadTypingRatesMap_def load_json_map_def load_try_def conf_get_def py0_loads)

text \<open>
  C9. The four loaders never raise, whatever the persisted text and whatever the decoder
  does with it; and when the text is not a mapping (the decoder rejects it, as it does
  the empty text, or it decodes to a JSON value that is not an object) the result is the
  empty mapping.
\<close>

theorem loaders_never_raise:
  "(\<exists>m. loadTypingRatesMap py c = Inr m) \<and> (\<exists>m. loadSpellingRatesMap py c = Inr m)
   \<and> (\<exists>m. loadBoostMap py c = Inr m) \<and> (\<exists>m. loadSpellBoostMap py c = Inr m)
   \<and> (malformed py (conf_get (typingRatesJson c) '''')
        \<longrightarrow> loadTypingRatesMap py c = Inr Map.empty)
   \<and> (malformed py (conf_get (spellingRatesJson c) '''')
        \<longrightarrow> loadSpellingRatesMap py c = Inr Map.empty)
   \<and> (malformed py (conf_get (oneCoreBoostJson c) '''')
        \<longrightarrow> loadBoostMap py c = Inr Map.empty)
   \<and> (malformed py (conf_get (oneCoreSpellBoostJson c) '''')
        \<longrightarrow> loadSpellBoostMap py c = Inr Map.empty)"
  using load_json_map_total load_json_map_malformed
  by (simp add: loadTypingRatesMap_def loadSpellingRatesMap_def loadBoostMap_def
      loadSpellBoostMap_def)

theorem loaders_never_raise_witness:
  "malformed py0 (conf_get (typingRatesJson conf_bad) '''')
   \<and> malformed py0 (conf_get (spellingRatesJson conf_bad) '''')
   \<and> malformed py0 (conf_get (oneCoreBoostJson conf_bad) '''')
   \<and> malformed py0 (conf_get (oneCoreSpellBoostJson conf_bad) '''')
   \<and> loadTypingRatesMap py0 conf_bad = Inr Map.empty
   \<and> loadSpellingRatesMap py0 conf_bad = Inr Map.empty
   \<and> loadBoostMap py0 conf_bad = Inr Map.empty
   \<and> loadSpellBoostMap py0 conf_bad = Inr Map.empty"
proof -
  have "malformed py0 (conf_get (typingRatesJson conf_bad) '''')"
    "malformed py0 (conf_get (spellingRatesJson conf_bad) '''')"
    "malformed py0 (conf_get (oneCoreBoostJson conf_bad) '''')"
    "malformed py0 (conf_get (oneCoreSpellBoostJson conf_bad) '''')"
    by (simp_all add: conf_bad_def conf0_def conf_get_def py0_malformed)
  with loaders_never_raise [of py0 conf_bad] show ?thesis by blast
qed

section \<open>Properties of the resolved offset\<close>

text \<open>
  The first statement of either function: 0 when the key it tests is false. The typing
  offset tests \<^verbatim>\<open>enabledSpelling\<close>, and \<^verbatim>\<open>enabled\<close> when that key is absent; the spelling
  offset tests \<^verbatim>\<open>enabled\<close>.
\<close>

lemma tested_key_off_gives_zero:
  "(conf_get (enabledSpelling c) (conf_get (enabled c) True) = False
      \<longrightarrow> computeTypingRateOffset py c synthName defaultRate = Inr 0)
   \<and> (conf_get (enabled c) True = False
      \<longrightarrow> computeSpellingRateOffset py c synthName defaultRate = Inr 0)"
  by (simp add: computeTypingRateOffset_def computeSpellingRateOffset_def)

text \<open>
  The offset of an enabled purpose in closed form: the rate, with a negative one replaced
  by the default rate, cut to 0..100, minus the default rate, plus the boost cut to
  0..100 when the name is a OneCore name.
\<close>

lemma typing_offset_formula:
  assumes "conf_get (enabledSpelling c) (conf_get (enabled c) True)"
    and "getTypingRateForSynth py c s = Inr r"
    and "getBoostForSynth py c s = Inr b"
  shows "computeTypingRateOffset py c s d =
           Inr ((if r < 0 then max 0 (min 100 d) else min 100 r) - d
                + (if isOneCoreSynthName s then max 0 (min 100 b) else 0))"
  using assms by (simp add: computeTypingRateOffset_def Let_def)

lemma spelling_offset_formula:
  assumes "conf_get (enabled c) True"
    and "getSpellingRateForSynth py c s = Inr r"
    and "getSpellBoostForSynth py c s = Inr b"
  shows "computeSpellingRateOffset py c s d =
           Inr ((if r < 0 then max 0 (min 100 d) else min 100 r) - d
                + (if isOneCoreSynthName s then max 0 (min 100 b) else 0))"
  using assms by (simp add: computeSpellingRateOffset_def Let_def)

lemma rate72_offset: "computeTypingRateOffset py0 conf_rate72 ''espeak'' 50 = Inr 22"
proof -
  obtain b where "getBoostForSynth py0 conf_rate72 ''espeak'' = Inr b"
    using getBoostForSynth_total by blast
  then show ?thesis
    using typing_offset_formula [OF conf_rate72_enabled(1) rate72_typing, of b 50]
      espeak_not_onecore
    by simp
qed

lemma rate72_spelling_offset: "computeSpellingRateOffset py0 conf_rate72 ''espeak'' 50 = Inr 22"
proof -
  obtain b where "getSpellBoostForSynth py0 conf_rate72 ''espeak'' = Inr b"
    using getSpellBoostForSynth_total by blast
  then show ?thesis
    using spelling_offset_formula [OF conf_rate72_enabled(2) rate72_spelling, of b 50]
      espeak_not_onecore
    by simp
qed

lemma rate0_offsets:
  "computeTypingRateOffset py0 conf0 ''espeak'' 50 = Inr 0"
  "computeSpellingRateOffset py0 conf0 ''espeak'' 50 = Inr 0"
proof -
  obtain b b' where "getBoostForSynth py0 conf0 ''espeak'' = Inr b"
    "getSpellBoostForSynth py0 conf0 ''espeak'' = Inr b'"
    using getBoostForSynth_total getSpellBoostForSynth_total by blast
  then show "computeTypingRateOffset py0 conf0 ''espeak'' 50 = Inr 0"
    "computeSpellingRateOffset py0 conf0 ''espeak'' 50 = Inr 0"
    using typing_offset_formula [OF conf0_enabled(1) conf0_rates(1), where b = b and d = 50]
      spelling_offset_formula [OF conf0_enabled(2) conf0_rates(2), where b = b' and d = 50]
      espeak_not_onecore
    by simp_all
qed

text \<open>
  C1. A purpose whose own flag is off should get the offset 0. It does not: the two
  functions test each other's key. With "Enable separate typing rate" unchecked
  (\<^verbatim>\<open>enabled\<close> false) and the spelling box checked, the typing offset for eSpeak at rate 72
  and default rate 50 is 22; with "Enable separate spelling rate" unchecked
  (\<^verbatim>\<open>enabledSpelling\<close> false) and the typing box checked, the spelling offset is 22.
\<close>

theorem own_flag_off_offset_not_zero:
  "enabled conf_typing_off = Some False
   \<and> computeTypingRateOffset py0 conf_typing_off ''espeak'' 50 = Inr 22
   \<and> enabledSpelling conf_spelling_off = Some False
   \<and> computeSpellingRateOffset py0 conf_spelling_off ''espeak'' 50 = Inr 22"
proof -
  obtain b b' where "getBoostForSynth py0 conf_typing_off ''espeak'' = Inr b"
    "getSpellBoostForSynth py0 conf_spelling_off ''espeak'' = Inr b'"
    using getBoostForSynth_total getSpellBoostForSynth_total by blast
  moreover have "conf_get (enabledSpelling conf_typing_off) (conf_get (enabled conf_typing_off) True)"
    "conf_get (enabled conf_spelling_off) True"
    by (simp_all add: conf_typing_off_def conf_spelling_off_def conf0_def conf_get_def)
  ultimately show ?thesis
    using typing_offset_formula [where c = conf_typing_off and py = py0 and s = "''espeak''"
        and r = 72 and b = b and d = 50]
      spelling_offset_formula [where c = conf_spelling_off and py = py0 and s = "''espeak''"
        and r = 72 and b = b' and d = 50]
      conf_off_rates espeak_not_onecore
    by (simp add: conf_typing_off_def conf_spelling_off_def conf0_def)
qed



subsection \<open>The OneCore boost\<close>

lemma py_in_sublist: "py_in needle hay = sublist needle hay"
  by (induction hay) (auto simp: sublist_Cons_right)

lemma lower_split:
  "lower s = ps @ w' @ ss \<Longrightarrow> \<exists>p w q. s = p @ w @ q \<and> lower w = w'"
  unfolding lower_def
  by (metis map_eq_append_conv)

lemma isOneCore_iff:
  "isOneCoreSynthName s \<longleftrightarrow> (\<exists>p w q. s = p @ w @ q \<and> lower w = ''onecore'')"
proof
  assume "isOneCoreSynthName s"
  then have "sublist ''onecore'' (lower s)"
    by (auto simp: isOneCoreSynthName_def Let_def py_in_sublist)
  then obtain ps ss where "lower s = ps @ ''onecore'' @ ss"
    by (auto simp: sublist_def)
  then show "\<exists>p w q. s = p @ w @ q \<and> lower w = ''onecore''"
    by (rule lower_split)
next
  assume "\<exists>p w q. s = p @ w @ q \<and> lower w = ''onecore''"
  then obtain p w q where "s = p @ w @ q" "lower w = ''onecore''" by blast
  then have "lower s = lower p @ ''onecore'' @ lower q"
    by (simp add: lower_def)
  then have "sublist ''onecore'' (lower s)"
    unfolding sublist_def by blast
  then show "isOneCoreSynthName s"
    by (simp add: isOneCoreSynthName_def Let_def py_in_sublist)
qed

lemma typing_rate_ignores_boost_keys:
  "getTypingRateForSynth py (c\<lparr>oneCoreBoostJson := bj, oneCoreBoost := bf\<rparr>) s
     = getTypingRateForSynth py c s"
  by (simp add: getTypingRateForSynth_def loadTypingRatesMap_def split: sum.split)

lemma spelling_rate_ignores_boost_keys:
  "getSpellingRateForSynth py (c\<lparr>oneCoreSpellBoostJson := bj, oneCoreSpellBoost := bf\<rparr>) s
     = getSpellingRateForSynth py c s"
  by (simp add: getSpellingRateForSynth_def loadSpellingRatesMap_def split: sum.split)

lemma typing_offset_ignores_boost:
  "\<not> isOneCoreSynthName s \<Longrightarrow>
     computeTypingRateOffset py (c\<lparr>oneCoreBoostJson := bj, oneCoreBoost := bf\<rparr>) s d
       = computeTypingRateOffset py c s d"
  by (simp add: computeTypingRateOffset_def typing_rate_ignores_boost_keys Let_def
      split: sum.split)

lemma spelling_offset_ignores_boost:
  "\<not> isOneCoreSynthName s \<Longrightarrow>
     computeSpellingRateOffset py (c\<lparr>oneCoreSpellBoostJson := bj, oneCoreSpellBoost := bf\<rparr>) s d
       = computeSpellingRateOffset py c s d"
  by (simp add: computeSpellingRateOffset_def spelling_rate_ignores_boost_keys Let_def
      split: sum.split)

text \<open>
  C5. The name test holds exactly for the names that contain \<open>onecore\<close> as a substring up
  to letter case. For every other name the offset is the same whatever boost is
  configured, in the map or as fallback. For an enabled purpose the offset is the base
  offset (the rate used minus the default rate) plus, for a OneCore name only, the boost
  cut to 0..100.
\<close>

theorem boost_only_for_onecore:
  "(isOneCoreSynthName s \<longleftrightarrow> (\<exists>p w q. s = p @ w @ q \<and> lower w = ''onecore''))
   \<and> (\<not> isOneCoreSynthName s \<longrightarrow>
        computeTypingRateOffset py (c\<lparr>oneCoreBoostJson := bj, oneCoreBoost := bf\<rparr>) s d
          = computeTypingRateOffset py c s d
        \<and> computeSpellingRateOffset py
             (c\<lparr>oneCoreSpellBoostJson := bj, oneCoreSpellBoost := bf\<rparr>) s d
          = computeSpellingRateOffset py c s d)
   \<and> (conf_get (enabledSpelling c) (conf_get (enabled c) True)
        \<and> getTypingRateForSynth py c s = Inr r \<and> getBoostForSynth py c s = Inr b
      \<longrightarrow> computeTypingRateOffset py c s d =
            Inr ((if r < 0 then max 0 (min 100 d) else min 100 r) - d
                 + (if isOneCoreSynthName s then max 0 (min 100 b) else 0)))
   \<and> (conf_get (enabled c) True
        \<and> getSpellingRateForSynth py c s = Inr r' \<and> getSpellBoostForSynth py c s = Inr b'
      \<longrightarrow> computeSpellingRateOffset py c s d =
            Inr ((if r' < 0 then max 0 (min 100 d) else min 100 r') - d
                 + (if isOneCoreSynthName s then max 0 (min 100 b') else 0)))"
  using isOneCore_iff [of s]
    typing_offset_ignores_boost [where s = s and py = py and c = c and bj = bj and bf = bf
      and d = d]
    spelling_offset_ignores_boost [where s = s and py = py and c = c and bj = bj and bf = bf
      and d = d]
    typing_offset_formula [where c = c and py = py and s = s and r = r and b = b and d = d]
    spelling_offset_formula [where c = c and py = py and s = s and r = r' and b = b' and d = d]
  by blast

theorem boost_only_for_onecore_witness:
  "isOneCoreSynthName ''oneCore''
   \<and> (\<exists>p w q. ''oneCore'' = p @ w @ q \<and> lower w = ''onecore'')
   \<and> \<not> isOneCoreSynthName ''espeak''
   \<and> computeTypingRateOffset py0
        (conf_rate72\<lparr>oneCoreBoostJson := Some doc_boost130, oneCoreBoost := Some 40\<rparr>)
        ''espeak'' 50 = Inr 22
   \<and> computeTypingRateOffset py0 conf_boost ''oneCore'' 50 = Inr (0 + 100)
   \<and> computeSpellingRateOffset py0 conf_boost ''oneCore'' 50 = Inr (0 + 100)"
  using boost_only_for_onecore [where s = "''oneCore''" and py = py0 and c = conf_boost
      and d = 50 and r = "- 1" and b = 130 and r' = "- 1" and b' = 130]
    boost_only_for_onecore [where s = "''espeak''" and py = py0 and c = conf_rate72
      and bj = "Some doc_boost130" and bf = "Some 40" and d = 50]
    conf_boost_enabled boost_conf_typing boost130 boost_conf_spelling spell_boost130
    oneCore_is_onecore espeak_not_onecore rate72_offset
  by auto

subsection \<open>Stored values outside 0..100\<close>

text \<open>
  C6 as stated fails for negative rates: with the rate \<open>-5\<close> stored for eSpeak and the
  default rate 50, the offset is \<open>50 - 50\<close> (the rate used is the default rate), not
  \<open>0 - 50\<close> (the rate used would be 0).
\<close>

theorem negative_rate_clamped_to_zero_counterexample:
  "getTypingRateForSynth py0 conf_neg ''espeak'' = Inr (- 5)
   \<and> \<not> isOneCoreSynthName ''espeak''
   \<and> computeTypingRateOffset py0 conf_neg ''espeak'' 50 = Inr (50 - 50)
   \<and> computeTypingRateOffset py0 conf_neg ''espeak'' 50 \<noteq> Inr (0 - 50)"
  using typing_offset_formula [OF conf_neg_enabled(1) neg_typing neg_boost, of 50]
  by (simp add: neg_typing espeak_not_onecore)

text \<open>
  C6, amended. For an enabled purpose the offset is \<open>R - d + B\<close>, where the rate used \<open>R\<close>
  and the boost used \<open>B\<close> are in 0..100: a stored rate above 100 is used as 100, one within
  0..100 as it is, and a negative one is replaced by the default rate cut to 0..100; for
  a OneCore name a stored boost above 100 is used as 100 and one below 0 as 0, and for
  any other name the boost used is 0.
\<close>

theorem stored_values_clamped:
  "(conf_get (enabledSpelling c) (conf_get (enabled c) True)
      \<and> getTypingRateForSynth py c s = Inr r \<and> getBoostForSynth py c s = Inr b
    \<longrightarrow> (\<exists>R B. computeTypingRateOffset py c s d = Inr (R - d + B)
           \<and> 0 \<le> R \<and> R \<le> 100 \<and> 0 \<le> B \<and> B \<le> 100
           \<and> (100 < r \<longrightarrow> R = 100)
           \<and> (0 \<le> r \<and> r \<le> 100 \<longrightarrow> R = r)
           \<and> (r < 0 \<longrightarrow> R = max 0 (min 100 d))
           \<and> (isOneCoreSynthName s \<longrightarrow> B = max 0 (min 100 b))
           \<and> (\<not> isOneCoreSynthName s \<longrightarrow> B = 0)))
   \<and> (conf_get (enabled c) True
      \<and> getSpellingRateForSynth py c s = Inr r' \<and> getSpellBoostForSynth py c s = Inr b'
    \<longrightarrow> (\<exists>R B. computeSpellingRateOffset py c s d = Inr (R - d + B)
           \<and> 0 \<le> R \<and> R \<le> 100 \<and> 0 \<le> B \<and> B \<le> 100
           \<and> (100 < r' \<longrightarrow> R = 100)
           \<and> (0 \<le> r' \<and> r' \<le> 100 \<longrightarrow> R = r')
           \<and> (r' < 0 \<longrightarrow> R = max 0 (min 100 d))
           \<and> (isOneCoreSynthName s \<longrightarrow> B = max 0 (min 100 b'))
           \<and> (\<not> isOneCoreSynthName s \<longrightarrow> B = 0)))"
proof (intro conjI impI)
  assume h: "conf_get (enabledSpelling c) (conf_get (enabled c) True)
      \<and> getTypingRateForSynth py c s = Inr r \<and> getBoostForSynth py c s = Inr b"
  let ?R = "if r < 0 then max 0 (min 100 d) else min 100 r"
  let ?B = "if isOneCoreSynthName s then max 0 (min 100 b) else 0"
  have "computeTypingRateOffset py c s d = Inr (?R - d + ?B)"
    using h by (simp add: typing_offset_formula)
  moreover have "0 \<le> ?R \<and> ?R \<le> 100 \<and> 0 \<le> ?B \<and> ?B \<le> 100" by simp
  moreover have "(100 < r \<longrightarrow> ?R = 100) \<and> (0 \<le> r \<and> r \<le> 100 \<longrightarrow> ?R = r)
     \<and> (r < 0 \<longrightarrow> ?R = max 0 (min 100 d))" by simp
  moreover have "(isOneCoreSynthName s \<longrightarrow> ?B = max 0 (min 100 b))
     \<and> (\<not> isOneCoreSynthName s \<longrightarrow> ?B = 0)" by simp
  ultimately show "\<exists>R B. computeTypingRateOffset py c s d = Inr (R - d + B)
           \<and> 0 \<le> R \<and> R \<le> 100 \<and> 0 \<le> B \<and> B \<le> 100
           \<and> (100 < r \<longrightarrow> R = 100)
           \<and> (0 \<le> r \<and> r \<le> 100 \<longrightarrow> R = r)
           \<and> (r < 0 \<longrightarrow> R = max 0 (min 100 d))
           \<and> (isOneCoreSynthName s \<longrightarrow> B = max 0 (min 100 b))
           \<and> (\<not> isOneCoreSynthName s \<longrightarrow> B = 0)"
    by blast
next
  assume h: "conf_get (enabled c) True
      \<and> getSpellingRateForSynth py c s = Inr r' \<and> getSpellBoostForSynth py c s = Inr b'"
  let ?R = "if r' < 0 then max 0 (min 100 d) else min 100 r'"
  let ?B = "if isOneCoreSynthName s then max 0 (min 100 b') else 0"
  have "computeSpellingRateOffset py c s d = Inr (?R - d + ?B)"
    using h by (simp add: spelling_offset_formula)
  moreover have "0 \<le> ?R \<and> ?R \<le> 100 \<and> 0 \<le> ?B \<and> ?B \<le> 100" by simp
  moreover have "(100 < r' \<longrightarrow> ?R = 100) \<and> (0 \<le> r' \<and> r' \<le> 100 \<longrightarrow> ?R = r')
     \<and> (r' < 0 \<longrightarrow> ?R = max 0 (min 100 d))" by simp
  moreover have "(isOneCoreSynthName s \<longrightarrow> ?B = max 0 (min 100 b'))
     \<and> (\<not> isOneCoreSynthName s \<longrightarrow> ?B = 0)" by simp
  ultimately show "\<exists>R B. computeSpellingRateOffset py c s d = Inr (R - d + B)
           \<and> 0 \<le> R \<and> R \<le> 100 \<and> 0 \<le> B \<and> B \<le> 100
           \<and> (100 < r' \<longrightarrow> R = 100)
           \<and> (0 \<le> r' \<and> r' \<le> 100 \<longrightarrow> R = r')
           \<and> (r' < 0 \<longrightarrow> R = max 0 (min 100 d))
           \<and> (isOneCoreSynthName s \<longrightarrow> B = max 0 (min 100 b'))
           \<and> (\<not> isOneCoreSynthName s \<longrightarrow> B = 0)"
    by blast
qed

theorem stored_values_clamped_witness:
  "getBoostForSynth py0 conf_boost ''oneCore'' = Inr 130
   \<and> getSpellBoostForSynth py0 conf_boost ''oneCore'' = Inr 130
   \<and> computeTypingRateOffset py0 conf_boost ''oneCore'' 50 = Inr (50 - 50 + 100)
   \<and> computeSpellingRateOffset py0 conf_boost ''oneCore'' 50 = Inr (50 - 50 + 100)"
  using stored_values_clamped [where c = conf_boost and py = py0 and s = "''oneCore''"
      and r = "- 1" and b = 130 and d = 50 and r' = "- 1" and b' = 130]
    conf_boost_enabled boost_conf_typing boost130 boost_conf_spelling spell_boost130
    oneCore_is_onecore
  by auto

text \<open>
  C10. Every negative rate stored for the active synthesizer, not only \<open>-1\<close>, means "follow
  the default rate": with a default rate in 0..100, as the host provides it, the rate
  used is the default rate and the offset before the boost is \<open>d - d = 0\<close>, not \<open>0 - d\<close>.
\<close>

theorem negative_rate_follows_default:
  assumes "0 \<le> d" and "d \<le> 100" and "r < 0" and "s \<noteq> []"
  shows "(conf_get (enabledSpelling c) (conf_get (enabled c) True)
            \<and> loadTypingRatesMap py c = Inr m \<and> m s = Some r
            \<and> getBoostForSynth py c s = Inr b
          \<longrightarrow> computeTypingRateOffset py c s d =
                Inr (d - d + (if isOneCoreSynthName s then max 0 (min 100 b) else 0)))
       \<and> (conf_get (enabled c) True
            \<and> loadSpellingRatesMap py c = Inr m' \<and> m' s = Some r
            \<and> getSpellBoostForSynth py c s = Inr b'
          \<longrightarrow> computeSpellingRateOffset py c s d =
                Inr (d - d + (if isOneCoreSynthName s then max 0 (min 100 b') else 0)))"
proof (intro conjI impI)
  assume h: "conf_get (enabledSpelling c) (conf_get (enabled c) True)
            \<and> loadTypingRatesMap py c = Inr m \<and> m s = Some r
            \<and> getBoostForSynth py c s = Inr b"
  then have "getTypingRateForSynth py c s = Inr r"
    using assms(4) by (simp add: getTypingRateForSynth_def)
  with h assms show "computeTypingRateOffset py c s d =
                Inr (d - d + (if isOneCoreSynthName s then max 0 (min 100 b) else 0))"
    by (simp add: typing_offset_formula)
next
  assume h: "conf_get (enabled c) True
            \<and> loadSpellingRatesMap py c = Inr m' \<and> m' s = Some r
            \<and> getSpellBoostForSynth py c s = Inr b'"
  then have "getSpellingRateForSynth py c s = Inr r"
    using assms(4) by (simp add: getSpellingRateForSynth_def)
  with h assms show "computeSpellingRateOffset py c s d =
                Inr (d - d + (if isOneCoreSynthName s then max 0 (min 100 b') else 0))"
    by (simp add: spelling_offset_formula)
qed

theorem negative_rate_follows_default_witness:
  "loadTypingRatesMap py0 conf_neg = Inr [''espeak'' \<mapsto> - 5]
   \<and> loadSpellingRatesMap py0 conf_neg = Inr [''espeak'' \<mapsto> - 5]
   \<and> computeTypingRateOffset py0 conf_neg ''espeak'' 50 = Inr 0
   \<and> computeSpellingRateOffset py0 conf_neg ''espeak'' 50 = Inr 0"
  using negative_rate_follows_default [where d = 50 and r = "- 5" and s = "''espeak''"
      and c = conf_neg and py = py0 and m = "[''espeak'' \<mapsto> - 5]" and b = 0
      and m' = "[''espeak'' \<mapsto> - 5]" and b' = 0]
    conf_neg_enabled neg_typing_map neg_spelling_map neg_boost neg_spell_boost espeak_not_onecore
  by simp

section \<open>Properties of the dispatch\<close>

text \<open>
  C7. Both dispatch functions always hand a sequence to the host. With offset 0 it is the
  given sequence unchanged; with any other offset it is that sequence between one rate
  command carrying the offset and one rate command that resets the rate.
\<close>

theorem dispatch_wraps_one_utterance:
  "(\<exists>offset. computeTypingRateOffset py (addonConf h) (activeSynthName h) (defaultSpeechRate h)
        = Inr offset)
   \<and> (\<exists>offset. computeSpellingRateOffset py (addonConf h) (activeSynthName h)
        (defaultSpeechRate h) = Inr offset)
   \<and> (computeTypingRateOffset py (addonConf h) (activeSynthName h) (defaultSpeechRate h)
        = Inr offset
      \<longrightarrow> speakWithTypingRate py h seq =
            Inr (if offset = 0 then seq
                 else [RateCommand (Some offset)] @ seq @ [RateCommand None]))
   \<and> (computeSpellingRateOffset py (addonConf h) (activeSynthName h) (defaultSpeechRate h)
        = Inr offset'
      \<longrightarrow> speakSpellingWithSpellingRate py h t =
            Inr (if offset' = 0 then getSpellingSpeech h t
                 else [RateCommand (Some offset')] @ getSpellingSpeech h t
                        @ [RateCommand None]))"
  using computeTypingRateOffset_total computeSpellingRateOffset_total
  by (simp add: speakWithTypingRate_def speakSpellingWithSpellingRate_def Let_def)

theorem dispatch_wraps_one_utterance_witness:
  "speakWithTypingRate py0 host0 [Text [99, 97, 116]]
     = Inr [RateCommand (Some 22), Text [99, 97, 116], RateCommand None]
   \<and> speakSpellingWithSpellingRate py0 host0 [97]
     = Inr [RateCommand (Some 22), Text [97], HostCommand 0, RateCommand None]
   \<and> speakWithTypingRate py0 (host0\<lparr>addonConf := conf0\<rparr>) [Text [99, 97, 116]]
     = Inr [Text [99, 97, 116]]
   \<and> speakSpellingWithSpellingRate py0 (host0\<lparr>addonConf := conf0\<rparr>) [97]
     = Inr [Text [97], HostCommand 0]"
  using dispatch_wraps_one_utterance [where py = py0 and h = host0 and offset = 22
      and offset' = 22 and seq = "[Text [99, 97, 116]]" and t = "[97]"]
    dispatch_wraps_one_utterance [where py = py0 and h = "host0\<lparr>addonConf := conf0\<rparr>"
      and offset = 0 and offset' = 0 and seq = "[Text [99, 97, 116]]" and t = "[97]"]
    rate72_offset rate72_spelling_offset rate0_offsets
  by (simp add: host0_fields)

section \<open>Properties of the typed-character handler\<close>

text \<open>
  C8. Whatever the buffer holds and whatever the host answers (protection, echo modes,
  editability, configuration), the delete character \<open>0x7F\<close> leaves the buffer as it was
  and produces no event at all.
\<close>

theorem delete_char_is_silent:
  "patched_speakTypedCharacters py h curWordChars 127 = (curWordChars, [])"
  by (simp add: patched_speakTypedCharacters_def speakTypedCharacters_try_def category_def
      ascii_category_def)

theorem delete_char_is_silent_witness:
  "patched_speakTypedCharacters py0 host_prot [99, 97] 127 = ([99, 97], [])"
  using delete_char_is_silent [of py0 host_prot "[99, 97]"] by simp

subsection \<open>The handler never takes its error branch\<close>

lemma speakWithTypingRate_total: "\<exists>seq'. speakWithTypingRate py h seq = Inr seq'"
  using computeTypingRateOffset_total [of py "addonConf h" "activeSynthName h" "defaultSpeechRate h"]
  by (auto simp: speakWithTypingRate_def)

lemma typed_char_echo_no_exn: "snd (typed_char_echo py h ch realChar) = None"
  using speakWithTypingRate_total [of py h "getSpellingSpeech h [realChar]"]
  by (auto simp: typed_char_echo_def speakSpellingWithTypingRate_def)

lemma typed_word_echo_no_exn: "snd (typed_word_echo py h w) = None"
  using speakWithTypingRate_total [of py h "[Text w]"]
  by (auto simp: typed_word_echo_def speakTextWithTypingRate_def Let_def)

lemma try_no_exn: "snd (snd (speakTypedCharacters_try py h buf ch)) = None"
  using typed_char_echo_no_exn [of py h ch "if isTypingProtected h then PROTECTED_CHAR else ch"]
    typed_word_echo_no_exn [of py h buf]
  by (auto simp: speakTypedCharacters_try_def Let_def split: prod.splits option.splits)

lemma patched_eq_try:
  "patched_speakTypedCharacters py h buf ch =
     (fst (speakTypedCharacters_try py h buf ch), fst (snd (speakTypedCharacters_try py h buf ch)))"
  using try_no_exn [of py h buf ch]
  by (auto simp: patched_speakTypedCharacters_def split: prod.splits option.splits)

lemma run_append:
  "run py buf (xs @ ys) =
     (fst (run py (fst (run py buf xs)) ys),
      snd (run py buf xs) @ snd (run py (fst (run py buf xs)) ys))"
  by (induction xs arbitrary: buf) (auto simp: Let_def split: prod.splits)

subsection \<open>Typed words when the rate is not applied to words\<close>

lemma word_char_printable:
  "fst (category py ch) \<in> set ''LMN'' \<Longrightarrow> FIRST_NONCONTROL_CHAR \<le> ch"
  by (cases "ch < 32") (auto simp: category_def ascii_category_def FIRST_NONCONTROL_CHAR_def)

lemma word_char_step:
  assumes "fst (category py ch) \<in> set ''LMN''" and "\<not> isTypingProtected h"
  shows "fst (patched_speakTypedCharacters py h buf ch) = buf @ [ch]
       \<and> list_all is_char_request (snd (patched_speakTypedCharacters py h buf ch))
       \<and> map request_text (snd (patched_speakTypedCharacters py h buf ch))
           = (if char_echo_permitted h then [[ch]] else [])"
proof -
  obtain seq where "speakSpellingWithTypingRate py h [ch] = Inr seq"
    using speakWithTypingRate_total [of py h "getSpellingSpeech h [ch]"]
    by (auto simp: speakSpellingWithTypingRate_def)
  then show ?thesis
    using assms word_char_printable [OF assms(1)]
    by (cases "speakTypedCharacters h")
      (auto simp: patched_eq_try speakTypedCharacters_try_def typed_char_echo_def Let_def
        is_char_request_def request_text_def char_echo_permitted_def)
qed

lemma run_word_chars:
  "\<forall>(h, ch) \<in> set ws. fst (category py ch) \<in> set ''LMN'' \<and> \<not> isTypingProtected h \<Longrightarrow>
     fst (run py buf ws) = buf @ map snd ws
     \<and> list_all is_char_request (snd (run py buf ws))
     \<and> map request_text (snd (run py buf ws))
         = map (\<lambda>k. [snd k]) (filter (\<lambda>k. char_echo_permitted (fst k)) ws)"
proof (induction ws arbitrary: buf)
  case Nil
  then show ?case by simp
next
  case (Cons k ws)
  obtain h ch where k: "k = (h, ch)" by (cases k)
  from Cons.prems k have w: "fst (category py ch) \<in> set ''LMN''" "\<not> isTypingProtected h"
    by simp_all
  from Cons.prems
  have "\<forall>(h, ch) \<in> set ws. fst (category py ch) \<in> set ''LMN'' \<and> \<not> isTypingProtected h"
    by simp
  from Cons.IH [OF this, of "buf @ [ch]"] word_char_step [OF w, of buf] k
  show ?case
    by (simp add: Let_def case_prod_beta)
qed

lemma typed_word_echo_not_applied:
  "\<not> conf_get (applyToWords (addonConf h)) False \<Longrightarrow>
     e \<in> set (fst (typed_word_echo py h w)) \<Longrightarrow> \<not> is_word_request e"
  by (auto simp: typed_word_echo_def Let_def is_word_request_def split: if_splits)

lemma typed_char_echo_no_word:
  "e \<in> set (fst (typed_char_echo py h ch rc)) \<Longrightarrow> \<not> is_word_request e"
  by (auto simp: typed_char_echo_def is_word_request_def split: if_splits sum.splits)

lemma step_not_applied:
  assumes "\<not> conf_get (applyToWords (addonConf h)) False"
    and "e \<in> set (snd (patched_speakTypedCharacters py h buf ch))"
  shows "\<not> is_word_request e"
  using assms typed_word_echo_not_applied [OF assms(1), of e py buf]
    typed_char_echo_no_word [of e py h ch "if isTypingProtected h then PROTECTED_CHAR else ch"]
  by (auto simp: patched_eq_try speakTypedCharacters_try_def Let_def
      split: prod.splits option.splits if_splits)

lemma run_not_applied:
  "\<forall>(h, ch) \<in> set ks. \<not> conf_get (applyToWords (addonConf h)) False \<Longrightarrow>
     \<forall>e \<in> set (snd (run py buf ks)). \<not> is_word_request e"
proof (induction ks arbitrary: buf)
  case Nil
  then show ?case by simp
next
  case (Cons k ks)
  obtain h ch where k: "k = (h, ch)" by (cases k)
  from Cons.prems k have a: "\<not> conf_get (applyToWords (addonConf h)) False" by simp
  from Cons.prems have "\<forall>(h, ch) \<in> set ks. \<not> conf_get (applyToWords (addonConf h)) False"
    by simp
  from Cons.IH [OF this, of "fst (patched_speakTypedCharacters py h buf ch)"]
    step_not_applied [OF a, of _ py buf ch] k
  show ?case
    by (auto simp: Let_def case_prod_beta)
qed

lemma boundary_step_clears:
  assumes "fst (category py b) \<notin> set ''LMN''" and "b \<noteq> 8" and "b \<noteq> 127"
  shows "fst (patched_speakTypedCharacters py h buf b) = []"
  using assms
  by (auto simp: patched_eq_try speakTypedCharacters_try_def Let_def
      split: prod.splits option.splits)

text \<open>
  C2. Letters, marks and numbers \<open>ws\<close> typed unprotected with "apply to words" off, then a
  boundary character \<open>b\<close> (neither backspace nor delete): the whole run holds no word
  request of the add-on's rate path (the word goes, if at all, to the host's own
  \<^verbatim>\<open>speakText\<close>); the letters produce character requests only, exactly one for each
  letter typed while the character echo mode permits, carrying that letter, in order; and
  the boundary leaves the buffer empty.
\<close>

theorem no_word_request_when_not_applied:
  assumes "\<forall>(h, ch) \<in> set ws. fst (category py ch) \<in> set ''LMN'' \<and> \<not> isTypingProtected h
             \<and> \<not> conf_get (applyToWords (addonConf h)) False"
    and "fst (category py b) \<notin> set ''LMN''" and "b \<noteq> 8" and "b \<noteq> 127"
    and "\<not> isTypingProtected hb" and "\<not> conf_get (applyToWords (addonConf hb)) False"
  shows "(\<forall>e \<in> set (snd (run py buf (ws @ [(hb, b)]))). \<not> is_word_request e)
       \<and> list_all is_char_request (snd (run py buf ws))
       \<and> map request_text (snd (run py buf ws))
           = map (\<lambda>k. [snd k])
               (filter (\<lambda>k. speakTypedCharacters (fst k) = ALWAYS
                  \<or> (speakTypedCharacters (fst k) = EDIT_CONTROLS \<and> isFocusEditable (fst k)))
                  ws)
       \<and> fst (run py buf (ws @ [(hb, b)])) = []"
proof -
  have "\<forall>(h, ch) \<in> set (ws @ [(hb, b)]). \<not> conf_get (applyToWords (addonConf h)) False"
    using assms(1,6) by auto
  then have 1: "\<forall>e \<in> set (snd (run py buf (ws @ [(hb, b)]))). \<not> is_word_request e"
    by (rule run_not_applied)
  have "\<forall>(h, ch) \<in> set ws. fst (category py ch) \<in> set ''LMN'' \<and> \<not> isTypingProtected h"
    using assms(1) by auto
  from run_word_chars [OF this, of buf]
  have 2: "list_all is_char_request (snd (run py buf ws))"
    and 3: "map request_text (snd (run py buf ws))
           = map (\<lambda>k. [snd k])
               (filter (\<lambda>k. speakTypedCharacters (fst k) = ALWAYS
                  \<or> (speakTypedCharacters (fst k) = EDIT_CONTROLS \<and> isFocusEditable (fst k)))
                  ws)"
    by (simp_all add: char_echo_permitted_def)
  have 4: "fst (run py buf (ws @ [(hb, b)])) = []"
    using boundary_step_clears [OF assms(2,3,4), of hb "fst (run py buf ws)"]
    by (simp add: run_append Let_def split: prod.splits)
  from 1 2 3 4 show ?thesis by blast
qed

theorem no_word_request_when_not_applied_witness:
  "filter is_word_request (snd (run py0 [] (cat_keys @ [(host0, 32)]))) = []
   \<and> list_all is_char_request (snd (run py0 [] cat_keys))
   \<and> map request_text (snd (run py0 [] cat_keys)) = [[99], [97], [116]]
   \<and> fst (run py0 [] (cat_keys @ [(host0, 32)])) = []"
proof -
  have h1: "\<forall>(h, ch) \<in> set cat_keys. fst (category py0 ch) \<in> set ''LMN''
             \<and> \<not> isTypingProtected h \<and> \<not> conf_get (applyToWords (addonConf h)) False"
    using letters_cat by (simp add: cat_keys_def host0_flags)
  have h2: "(32::nat) \<noteq> 8" "(32::nat) \<noteq> 127" by simp_all
  have f: "map (\<lambda>k. [snd k]) (filter (\<lambda>k. speakTypedCharacters (fst k) = ALWAYS
              \<or> (speakTypedCharacters (fst k) = EDIT_CONTROLS \<and> isFocusEditable (fst k)))
              cat_keys) = [[99], [97], [116]]"
    by (simp add: cat_keys_def host0_flags)
  from no_word_request_when_not_applied [OF h1 letters_cat(4) h2 host0_flags(1,2), of "[]"] f
  show ?thesis
    by (simp add: filter_empty_conv)
qed

subsection \<open>Protected input\<close>

lemma step_protected_class:
  assumes "isTypingProtected h" and "classify py c1 = classify py c2"
    and "(FIRST_NONCONTROL_CHAR \<le> c1) = (FIRST_NONCONTROL_CHAR \<le> c2)"
  shows "patched_speakTypedCharacters py h buf c1 = patched_speakTypedCharacters py h buf c2"
proof -
  have e: "typed_char_echo py h c1 PROTECTED_CHAR = typed_char_echo py h c2 PROTECTED_CHAR"
    using assms(3) by (simp add: typed_char_echo_def)
  have k: "fst (category py 8) \<notin> set ''LMN''" "fst (category py 127) \<notin> set ''LMN''"
    by (simp_all add: category_def ascii_category_def)
  from assms(2) k
  have "(fst (category py c1) \<in> set ''LMN'') = (fst (category py c2) \<in> set ''LMN'')"
    and "(c1 = 8) = (c2 = 8)" and "(c1 = 127) = (c2 = 127)"
    by (auto simp: classify_def split: if_splits)
  with assms(1) e show ?thesis
    by (simp add: patched_eq_try speakTypedCharacters_try_def Let_def)
qed

lemma run_protected_class:
  "list_all2 (\<lambda>(h', c') (h, c). h' = h \<and> isTypingProtected h
       \<and> classify py c' = classify py c
       \<and> (FIRST_NONCONTROL_CHAR \<le> c') = (FIRST_NONCONTROL_CHAR \<le> c)) ks' ks
   \<Longrightarrow> run py buf ks' = run py buf ks"
proof (induction arbitrary: buf rule: list_all2_induct)
  case Nil
  then show ?case by simp
next
  case (Cons k' ks' k ks)
  obtain h' c' h c where k: "k' = (h', c')" "k = (h, c)" by (cases k', cases k) auto
  with Cons.hyps
  have "patched_speakTypedCharacters py h' buf c' = patched_speakTypedCharacters py h buf c"
    by (auto intro: step_protected_class)
  with Cons.IH k show ?case by (simp add: Let_def split: prod.splits)
qed

lemma typed_char_echo_protected:
  "isTypingProtected h \<Longrightarrow> e \<in> set (fst (typed_char_echo py h ch PROTECTED_CHAR))
     \<Longrightarrow> masked_event buf e"
  by (auto simp: typed_char_echo_def masked_event_def split: if_splits sum.splits)

lemma typed_word_echo_protected:
  "isTypingProtected h \<Longrightarrow> e \<in> set (fst (typed_word_echo py h w)) \<Longrightarrow> e = LogIO w"
  by (auto simp: typed_word_echo_def Let_def split: if_splits)

lemma step_protected_masked:
  assumes "isTypingProtected h"
  shows "set (fst (patched_speakTypedCharacters py h buf ch)) \<subseteq> set buf \<union> {PROTECTED_CHAR}
       \<and> (\<forall>e \<in> set (snd (patched_speakTypedCharacters py h buf ch)). masked_event buf e)"
proof -
  have a: "\<And>e. e \<in> set (fst (typed_char_echo py h ch PROTECTED_CHAR)) \<Longrightarrow> masked_event buf e"
    using assms by (rule typed_char_echo_protected)
  have b: "\<And>e. e \<in> set (fst (typed_word_echo py h buf)) \<Longrightarrow> masked_event buf e"
    by (auto simp: masked_event_def dest!: typed_word_echo_protected [OF assms])
  have c: "set (butlast buf) \<subseteq> set buf"
    by (auto dest: in_set_butlastD)
  show ?thesis
    using assms a b c
    by (auto simp: patched_eq_try speakTypedCharacters_try_def Let_def
        split: prod.splits option.splits if_splits)
qed

lemma masked_event_mono:
  "masked_event buf' e \<Longrightarrow> set buf' \<subseteq> set buf \<union> {PROTECTED_CHAR} \<Longrightarrow> masked_event buf e"
  by (auto simp: masked_event_def split: event.splits)

lemma run_protected_masked:
  "\<forall>(h, ch) \<in> set ks. isTypingProtected h \<Longrightarrow>
     set (fst (run py buf ks)) \<subseteq> set buf \<union> {PROTECTED_CHAR}
     \<and> (\<forall>e \<in> set (snd (run py buf ks)). masked_event buf e)"
proof (induction ks arbitrary: buf)
  case Nil
  then show ?case by auto
next
  case (Cons k ks)
  obtain h ch where k: "k = (h, ch)" by (cases k)
  obtain buf' evs where st: "patched_speakTypedCharacters py h buf ch = (buf', evs)"
    by (cases "patched_speakTypedCharacters py h buf ch")
  from Cons.prems k have prot: "isTypingProtected h" by simp
  from step_protected_masked [OF prot, of py buf ch] st
  have s1: "set buf' \<subseteq> set buf \<union> {PROTECTED_CHAR}" and s2: "\<forall>e \<in> set evs. masked_event buf e"
    by simp_all
  from Cons.prems have "\<forall>(h, ch) \<in> set ks. isTypingProtected h" by simp
  from Cons.IH [OF this, of buf']
  have r1: "set (fst (run py buf' ks)) \<subseteq> set buf' \<union> {PROTECTED_CHAR}"
    and r2: "\<forall>e \<in> set (snd (run py buf' ks)). masked_event buf' e"
    by simp_all
  from r2 s1 have r2': "\<forall>e \<in> set (snd (run py buf' ks)). masked_event buf e"
    by (blast intro: masked_event_mono)
  from r1 s1 have r1': "set (fst (run py buf' ks)) \<subseteq> set buf \<union> {PROTECTED_CHAR}"
    by blast
  show ?case
    using k st s2 r1' r2' by (auto simp: Let_def split: prod.splits)
qed

text \<open>
  C3 as stated fails in its last part: a tab and a space are both boundary characters,
  yet under protection the run \<open>s\<close>, tab differs from the run \<open>s\<close>, space. The space is
  echoed (as the mask), the tab, a control character, is not.
\<close>

theorem same_category_different_output_counterexample:
  "isTypingProtected host_prot
   \<and> classify py0 9 = Boundary \<and> classify py0 32 = Boundary
   \<and> run py0 [] s_tab_keys \<noteq> run py0 [] s_space_keys"
proof -
  have "length (snd (run py0 [] s_tab_keys)) = 2"
    by (simp add: s_tab_keys_def patched_eq_try speakTypedCharacters_try_def typed_char_echo_def
        typed_word_echo_def speakSpellingWithTypingRate_def speakWithTypingRate_def
        host_prot_def host0_def rate72_offset category_def ascii_category_def
        FIRST_NONCONTROL_CHAR_def Let_def)
  moreover have "length (snd (run py0 [] s_space_keys)) = 3"
    by (simp add: s_space_keys_def patched_eq_try speakTypedCharacters_try_def
        typed_char_echo_def typed_word_echo_def speakSpellingWithTypingRate_def
        speakWithTypingRate_def host_prot_def host0_def rate72_offset category_def
        ascii_category_def FIRST_NONCONTROL_CHAR_def Let_def)
  ultimately have "run py0 [] s_tab_keys \<noteq> run py0 [] s_space_keys"
    by auto
  then show ?thesis
    by (simp add: host_prot_def classify_def category_def ascii_category_def)
qed

text \<open>
  C3, amended. Keystrokes \<open>ks\<close> typed while protection is on: the buffer gains nothing but
  the mask \<open>*\<close>; every event is a character request carrying the mask alone or a log
  line made of the mask and of what the buffer held before, so no word is spoken and the
  error branch, which would pass the typed character to the original handler, is not
  taken; and keystrokes \<open>ks'\<close> that agree with \<open>ks\<close> in what the host answers, in the
  category of each character (letter, mark or number; backspace; delete; anything else)
  and in each character being a control character or not, give the same buffer and the
  same events.
\<close>

theorem protected_input_is_masked:
  assumes "\<forall>(h, ch) \<in> set ks. isTypingProtected h"
  shows "set (fst (run py buf ks)) \<subseteq> set buf \<union> {PROTECTED_CHAR}
       \<and> (\<forall>e \<in> set (snd (run py buf ks)). masked_event buf e)
       \<and> (list_all2 (\<lambda>(h', c') (h, c). h' = h \<and> classify py c' = classify py c
       \<and> (FIRST_NONCONTROL_CHAR \<le> c') = (FIRST_NONCONTROL_CHAR \<le> c)) ks' ks
            \<longrightarrow> run py buf ks' = run py buf ks)"
proof -
  have "run py buf ks' = run py buf ks"
    if "list_all2 (\<lambda>(h', c') (h, c). h' = h \<and> classify py c' = classify py c
       \<and> (FIRST_NONCONTROL_CHAR \<le> c') = (FIRST_NONCONTROL_CHAR \<le> c)) ks' ks"
  proof -
    from that assms
    have "list_all2 (\<lambda>(h', c') (h, c). h' = h \<and> isTypingProtected h
              \<and> classify py c' = classify py c
       \<and> (FIRST_NONCONTROL_CHAR \<le> c') = (FIRST_NONCONTROL_CHAR \<le> c)) ks' ks"
      by (auto elim!: list.rel_mono_strong)
    then show ?thesis by (rule run_protected_class)
  qed
  with run_protected_masked [OF assms, of py buf] show ?thesis by blast
qed

theorem protected_input_is_masked_witness:
  "run py0 [] abx_keys = run py0 [] sec_keys
   \<and> list_all (\<lambda>c. c = PROTECTED_CHAR) (fst (run py0 [] sec_keys))
   \<and> list_all (masked_event []) (snd (run py0 [] sec_keys))"
proof -
  have h: "\<forall>(h, ch) \<in> set sec_keys. isTypingProtected h"
    by (simp add: sec_keys_def host_prot_protected)
  have c: "list_all2 (\<lambda>(h', c') (h, c). h' = h \<and> classify py0 c' = classify py0 c
       \<and> (FIRST_NONCONTROL_CHAR \<le> c') = (FIRST_NONCONTROL_CHAR \<le> c))
             abx_keys sec_keys"
    by (simp add: abx_keys_def sec_keys_def classes_agree)
  from protected_input_is_masked [OF h, of py0 "[]" abx_keys] c
  show ?thesis
    by (auto simp: list_all_iff)
qed

end
